theory Spec2Isabelle
  imports Complex_Main "HOL-Library.Word"
begin

chapter \<open>SpeechTide: hotkey, audio capture, transcription and controller\<close>

text \<open>
  A shallow embedding of the voice-capture-to-text pipeline of SpeechTide:
  \<^verbatim>\<open>hotkey_manager.py\<close>, \<^verbatim>\<open>audio_recorder.py\<close>, \<^verbatim>\<open>openai_client.py\<close> and
  \<^verbatim>\<open>menu_bar.py\<close>. Objects are records passed explicitly; every exception of the
  source is a branch of the model; calls into the environment (loggers, observers, the
  remote service, notifications) are recorded in trace fields of the records.
\<close>

section \<open>Python values\<close>

type_synonym byte = "8 word"
type_synonym bytes = "byte list"

text \<open>A Python \<^verbatim>\<open>str\<close> holding free text is a list of Unicode code points.\<close>

type_synonym pystr = "nat list"

text \<open>\<^verbatim>\<open>str.isspace\<close> for one code point: the white space table of CPython.\<close>

definition py_isspace :: "nat \<Rightarrow> bool" where
  "py_isspace c \<longleftrightarrow>
     (9 \<le> c \<and> c \<le> 13) \<or> (28 \<le> c \<and> c \<le> 32) \<or> c = 133 \<or> c = 160 \<or> c = 5760 \<or>
     (8192 \<le> c \<and> c \<le> 8202) \<or> c = 8232 \<or> c = 8233 \<or> c = 8239 \<or> c = 8287 \<or> c = 12288"

text \<open>\<^verbatim>\<open>str.strip()\<close>: white space removed at both ends.\<close>

definition py_strip :: "pystr \<Rightarrow> pystr" where
  "py_strip s = rev (dropWhile py_isspace (rev (dropWhile py_isspace s)))"

datatype py_error = ValueError string | WaveError string | StructError | OSError string

section \<open>Hotkey manager (hotkey\_manager.py)\<close>

text \<open>A pynput key: a special key of \<^verbatim>\<open>Key\<close> or a character \<^verbatim>\<open>KeyCode\<close>.\<close>

datatype key = Key string | KeyCode char

definition KEY_MAPPING :: "(string \<times> key) list" where
  "KEY_MAPPING =
    [(''right_cmd'', Key ''cmd_r''), (''left_cmd'', Key ''cmd_l''),
     (''right_option'', Key ''alt_r''), (''left_option'', Key ''alt_l''),
     (''right_alt'', Key ''alt_r''), (''left_alt'', Key ''alt_l''),
     (''right_ctrl'', Key ''ctrl_r''), (''left_ctrl'', Key ''ctrl_l''),
     (''right_shift'', Key ''shift_r''), (''left_shift'', Key ''shift_l''),
     (''space'', Key ''space''), (''esc'', Key ''esc''),
     (''tab'', Key ''tab''), (''enter'', Key ''enter'')]"

definition get_key_object :: "string \<Rightarrow> py_error + key" where
  "get_key_object key_name =
     (case map_of KEY_MAPPING key_name of
        Some k \<Rightarrow> Inr k
      | None \<Rightarrow>
          (case key_name of
             [c] \<Rightarrow> Inr (KeyCode c)
           | _ \<Rightarrow> Inl (ValueError (''Unknown key name: '' @ key_name))))"

text \<open>The lines the manager writes to its logger that carry data.\<close>

datatype hotkey_log =
    Hotkey_pressed string
  | Hotkey_released string rat
  | Hotkey_triggered string

text \<open>
  The manager object. \<open>hk_on_hotkey\<close> tells whether a callback is registered, and
  \<open>hk_dispatched\<close> lists the key names for which a callback thread was started, in
  order: the signals the manager emits. The source has one kind of signal only. Times
  are rational numbers; the threshold \<^verbatim>\<open>0.1\<close> is taken as one tenth.
\<close>

record hotkey_manager =
  primary_key :: key
  primary_key_name :: string
  hk_on_hotkey :: bool
  hk_is_running :: bool
  pressed_keys :: "key set"
  interaction_mode :: string
  key_pressed_time :: "string \<rightharpoonup> rat"
  hold_threshold :: rat
  hk_dispatched :: "string list"
  hk_log :: "hotkey_log list"

definition hotkey_manager_init :: "string \<Rightarrow> bool \<Rightarrow> py_error + hotkey_manager" where
  "hotkey_manager_init key_name on_hotkey =
     (case get_key_object key_name of
        Inl e \<Rightarrow> Inl e
      | Inr k \<Rightarrow> Inr \<lparr>primary_key = k, primary_key_name = key_name,
            hk_on_hotkey = on_hotkey, hk_is_running = False, pressed_keys = {},
            interaction_mode = ''click'', key_pressed_time = Map.empty,
            hold_threshold = 1 / 10, hk_dispatched = [], hk_log = []\<rparr>)"

definition set_interaction_mode :: "hotkey_manager \<Rightarrow> string \<Rightarrow> hotkey_manager" where
  "set_interaction_mode hk mode =
     (if mode \<in> set [''click'', ''hold''] then hk\<lparr>interaction_mode := mode\<rparr> else hk)"

definition trigger_hotkey :: "hotkey_manager \<Rightarrow> string \<Rightarrow> hotkey_manager" where
  "trigger_hotkey hk key_name =
     (let hk1 = hk\<lparr>hk_log := hk_log hk @ [Hotkey_triggered key_name]\<rparr>
      in if hk_on_hotkey hk1
         then hk1\<lparr>hk_dispatched := hk_dispatched hk1 @ [key_name]\<rparr>
         else hk1)"

definition handle_hotkey_press :: "hotkey_manager \<Rightarrow> string \<Rightarrow> rat \<Rightarrow> hotkey_manager" where
  "handle_hotkey_press hk key_name press_time =
     (let hk1 = hk\<lparr>key_pressed_time := (key_pressed_time hk)(key_name \<mapsto> press_time),
                    hk_log := hk_log hk @ [Hotkey_pressed key_name]\<rparr>
      in if interaction_mode hk1 = ''click'' then trigger_hotkey hk1 key_name else hk1)"

definition handle_hotkey_release :: "hotkey_manager \<Rightarrow> string \<Rightarrow> rat \<Rightarrow> hotkey_manager" where
  "handle_hotkey_release hk key_name release_time =
     (case key_pressed_time hk key_name of
        None \<Rightarrow> hk
      | Some press_time \<Rightarrow>
          (let hold_duration = release_time - press_time;
               hk1 = hk\<lparr>hk_log := hk_log hk @ [Hotkey_released key_name hold_duration]\<rparr>;
               hk2 = (if interaction_mode hk1 = ''hold'' \<and> hold_duration \<ge> hold_threshold hk1
                      then trigger_hotkey hk1 key_name else hk1)
           in hk2\<lparr>key_pressed_time := (key_pressed_time hk2)(key_name := None)\<rparr>))"

text \<open>
  A raw keyboard event as the listener delivers it: the key, the wall-clock time at which
  it happens (seconds), and the identifier of the thread that runs the handler
  (\<^verbatim>\<open>threading.current_thread().ident\<close>, which may be \<^verbatim>\<open>None\<close>).
\<close>

record key_event =
  ev_key :: key
  ev_time :: rat
  ev_thread_ident :: "int option"

definition current_time :: "key_event \<Rightarrow> int" where
  "current_time ev = (case ev_thread_ident ev of None \<Rightarrow> 0 | Some i \<Rightarrow> if i = 0 then 0 else i)"

definition on_key_press :: "hotkey_manager \<Rightarrow> key_event \<Rightarrow> hotkey_manager" where
  "on_key_press hk ev =
     (let hk1 = (if ev_key ev = primary_key hk
                 then handle_hotkey_press hk (primary_key_name hk) (of_int (current_time ev))
                 else hk)
      in hk1\<lparr>pressed_keys := insert (ev_key ev) (pressed_keys hk1)\<rparr>)"

definition on_key_release :: "hotkey_manager \<Rightarrow> key_event \<Rightarrow> hotkey_manager" where
  "on_key_release hk ev =
     (let hk1 = (if ev_key ev = primary_key hk
                 then handle_hotkey_release hk (primary_key_name hk) (of_int (current_time ev))
                 else hk)
      in hk1\<lparr>pressed_keys := pressed_keys hk1 - {ev_key ev}\<rparr>)"

text \<open>A manager for the right command key with a callback registered, in either mode.\<close>

definition right_cmd_manager :: "string \<Rightarrow> hotkey_manager" where
  "right_cmd_manager mode =
     \<lparr>primary_key = Key ''cmd_r'', primary_key_name = ''right_cmd'',
      hk_on_hotkey = True, hk_is_running = True, pressed_keys = {},
      interaction_mode = mode, key_pressed_time = Map.empty,
      hold_threshold = 1 / 10, hk_dispatched = [], hk_log = []\<rparr>"

text \<open>
  The failing scenario of the hold-duration computation: the trigger key goes down at
  wall-clock second 0 and comes up at second 5; pynput runs both handlers on its one
  listener thread, here with identifier 7.
\<close>

definition press_ev :: key_event where
  "press_ev = \<lparr>ev_key = Key ''cmd_r'', ev_time = 0, ev_thread_ident = Some 7\<rparr>"

definition release_ev :: key_event where
  "release_ev = \<lparr>ev_key = Key ''cmd_r'', ev_time = 5, ev_thread_ident = Some 7\<rparr>"

section \<open>Audio recorder (audio\_recorder.py)\<close>

datatype sample_format = PaInt16 | PaInt24 | PaInt32 | PaFloat32 | PaUInt8

text \<open>\<^verbatim>\<open>PyAudio.get_sample_size\<close>: bytes per sample of a format.\<close>

definition get_sample_size :: "sample_format \<Rightarrow> int" where
  "get_sample_size f = (case f of PaInt16 \<Rightarrow> 2 | PaInt24 \<Rightarrow> 3 | PaInt32 \<Rightarrow> 4
                        | PaFloat32 \<Rightarrow> 4 | PaUInt8 \<Rightarrow> 1)"

datatype recorder_log = Rec_info string | Rec_warning string | Rec_error string

datatype callback_flag = PaContinue | PaComplete | PaAbort

text \<open>
  The recorder object. The volume observer is a function that returns \<open>None\<close> when it
  returns normally and \<open>Some msg\<close> when it raises an exception with that message.
  \<open>device_available\<close> is the environment: whether opening the input stream succeeds.
  \<open>rec_delivered\<close> lists the values passed to the observer, \<open>rec_log\<close> the logger
  calls. \<^verbatim>\<open>float64\<close> values are modelled as real numbers.
\<close>

record audio_recorder =
  sample_rate :: int
  channels :: int
  chunk_size :: int
  rec_format :: sample_format
  rec_is_recording :: bool
  audio_data :: "bytes list"
  audio_stream :: bool
  current_volume :: real
  volume_callback :: "(real \<Rightarrow> string option) option"
  device_available :: bool
  rec_delivered :: "real list"
  rec_log :: "recorder_log list"

definition rec_logging :: "recorder_log \<Rightarrow> audio_recorder \<Rightarrow> audio_recorder" where
  "rec_logging l r = r\<lparr>rec_log := rec_log r @ [l]\<rparr>"

text \<open>\<^verbatim>\<open>start_recording\<close>: the new state and the exception raised, if any.\<close>

definition start_recording :: "audio_recorder \<Rightarrow> audio_recorder \<times> py_error option" where
  "start_recording r =
     (if rec_is_recording r
      then (rec_logging (Rec_warning ''Recording already in progress'') r, None)
      else
        (let r1 = r\<lparr>audio_data := [], rec_is_recording := True\<rparr>
         in if device_available r1
            then (rec_logging (Rec_info ''Audio recording started'') (r1\<lparr>audio_stream := True\<rparr>), None)
            else (rec_logging (Rec_error ''Failed to start recording'')
                    (r1\<lparr>rec_is_recording := False\<rparr>),
                  Some (OSError ''stream open failed''))))"

text \<open>\<^verbatim>\<open>np.frombuffer(in_data, dtype=np.int16)\<close>: little-endian signed 16-bit samples.\<close>

definition int16_le :: "byte \<Rightarrow> byte \<Rightarrow> int" where
  "int16_le lo hi =
     (let u = uint lo + 256 * uint hi in if u < 32768 then u else u - 65536)"

fun int16_samples :: "bytes \<Rightarrow> int list" where
  "int16_samples (lo # hi # rest) = int16_le lo hi # int16_samples rest"
| "int16_samples _ = []"

definition frombuffer_int16 :: "bytes \<Rightarrow> py_error + int list" where
  "frombuffer_int16 in_data =
     (if odd (length in_data)
      then Inl (ValueError ''buffer size must be a multiple of element size'')
      else Inr (int16_samples in_data))"

text \<open>
  The volume of one chunk, lines 154 to 164. Every real number is finite, so
  \<^verbatim>\<open>np.isfinite\<close> is true of each.
\<close>

definition np_isfinite :: "real \<Rightarrow> bool" where
  "np_isfinite x = True"

definition chunk_volume :: "int list \<Rightarrow> real" where
  "chunk_volume audio_array =
     (if length audio_array > 0
      then
        (let audio_squared = map (\<lambda>x. (real_of_int x)\<^sup>2) audio_array;
             mean_val = sum_list audio_squared / real (length audio_squared);
             volume = (if np_isfinite mean_val \<and> mean_val \<ge> 0 then sqrt mean_val else 0)
         in volume / 32768)
      else 0)"

definition notify_volume :: "audio_recorder \<Rightarrow> audio_recorder" where
  "notify_volume r =
     (case volume_callback r of
        None \<Rightarrow> r
      | Some f \<Rightarrow>
          (let r1 = r\<lparr>rec_delivered := rec_delivered r @ [current_volume r]\<rparr>
           in case f (current_volume r) of
                None \<Rightarrow> r1
              | Some msg \<Rightarrow> rec_logging (Rec_error (''Error in volume callback: '' @ msg)) r1))"

text \<open>
  \<^verbatim>\<open>_audio_callback\<close>: the new state, and either the exception that leaves the callback
  or the pair it returns.
\<close>

definition audio_callback ::
  "audio_recorder \<Rightarrow> bytes \<Rightarrow> audio_recorder \<times> (py_error + bytes \<times> callback_flag)" where
  "audio_callback r in_data =
     (if rec_is_recording r
      then
        (let r1 = r\<lparr>audio_data := audio_data r @ [in_data]\<rparr>
         in case frombuffer_int16 in_data of
              Inl e \<Rightarrow> (r1, Inl e)
            | Inr audio_array \<Rightarrow>
                (notify_volume (r1\<lparr>current_volume := chunk_volume audio_array\<rparr>),
                 Inr (in_data, PaContinue)))
      else (r, Inr (in_data, PaContinue)))"

subsection \<open>The WAV container\<close>

text \<open>\<^verbatim>\<open>struct.pack\<close> of an unsigned little-endian field of \<open>n\<close> bytes.\<close>

fun le_bytes :: "nat \<Rightarrow> nat \<Rightarrow> bytes" where
  "le_bytes 0 v = []"
| "le_bytes (Suc n) v = of_nat (v mod 256) # le_bytes n (v div 256)"

definition fits_L :: "int \<Rightarrow> bool" where
  "fits_L v \<longleftrightarrow> 0 \<le> v \<and> v < 2 ^ 32"

definition fits_H :: "int \<Rightarrow> bool" where
  "fits_H v \<longleftrightarrow> 0 \<le> v \<and> v < 2 ^ 16"

definition pack_L :: "int \<Rightarrow> bytes" where
  "pack_L v = le_bytes 4 (nat v)"

definition pack_H :: "int \<Rightarrow> bytes" where
  "pack_H v = le_bytes 2 (nat v)"

definition ascii :: "string \<Rightarrow> bytes" where
  "ascii s = map of_char s"

text \<open>The 44 bytes that \<^verbatim>\<open>Wave_write._write_header\<close> and \<^verbatim>\<open>_patchheader\<close> leave.\<close>

definition wav_header :: "int \<Rightarrow> int \<Rightarrow> int \<Rightarrow> int \<Rightarrow> bytes" where
  "wav_header nchannels sampwidth framerate datalength =
     ascii ''RIFF'' @ pack_L (36 + datalength) @ ascii ''WAVE'' @ ascii ''fmt '' @
     pack_L 16 @ pack_H 1 @ pack_H nchannels @ pack_L framerate @
     pack_L (nchannels * framerate * sampwidth) @ pack_H (nchannels * sampwidth) @
     pack_H (sampwidth * 8) @ ascii ''data'' @ pack_L datalength"

text \<open>
  The calls \<^verbatim>\<open>setnchannels\<close>, \<^verbatim>\<open>setsampwidth\<close>, \<^verbatim>\<open>setframerate\<close>,
  \<^verbatim>\<open>writeframes\<close> and \<^verbatim>\<open>close\<close> of the standard \<^verbatim>\<open>wave\<close> module on an in-memory
  file, on a little-endian machine: the checks of the setters, the header packed for the
  whole frames of the data, and the header patched when the data is not whole frames.
\<close>

definition wave_write :: "int \<Rightarrow> int \<Rightarrow> int \<Rightarrow> bytes \<Rightarrow> py_error + bytes" where
  "wave_write nchannels sampwidth framerate data =
     (if nchannels < 1 then Inl (WaveError ''bad # of channels'')
      else if sampwidth < 1 \<or> sampwidth > 4 then Inl (WaveError ''bad sample width'')
      else if framerate \<le> 0 then Inl (WaveError ''bad frame rate'')
      else
        (let len = int (length data);
             nframes = len div (nchannels * sampwidth);
             datalength = nframes * nchannels * sampwidth
         in if \<not> (fits_L (36 + datalength) \<and> fits_H nchannels \<and> fits_L framerate \<and>
                   fits_L (nchannels * framerate * sampwidth) \<and>
                   fits_H (nchannels * sampwidth) \<and> fits_H (sampwidth * 8))
            then Inl StructError
            else if datalength \<noteq> len \<and> \<not> fits_L (36 + len) then Inl StructError
            else Inr (wav_header nchannels sampwidth framerate len @ data)))"

definition create_wav_data :: "audio_recorder \<Rightarrow> audio_recorder \<times> bytes" where
  "create_wav_data r =
     (let audio_bytes = concat (audio_data r)
      in case wave_write (channels r) (get_sample_size (rec_format r)) (sample_rate r) audio_bytes of
           Inl e \<Rightarrow> (rec_logging (Rec_error ''Failed to create WAV data'') r, [])
         | Inr wav \<Rightarrow> (r, wav))"

text \<open>\<^verbatim>\<open>stop_recording\<close>; stopping and closing the stream are taken to succeed.\<close>

definition stop_recording :: "audio_recorder \<Rightarrow> audio_recorder \<times> bytes" where
  "stop_recording r =
     (if \<not> rec_is_recording r
      then (rec_logging (Rec_warning ''No recording in progress'') r, [])
      else
        (let r1 = r\<lparr>rec_is_recording := False, audio_stream := False\<rparr>
         in if audio_data r1 \<noteq> []
            then (case create_wav_data r1 of
                    (r2, wav_data) \<Rightarrow> (rec_logging (Rec_info ''Recording stopped'') r2, wav_data))
            else (rec_logging (Rec_warning ''No audio data recorded'') r1, [])))"

text \<open>
  Reading a container back: the fields of the canonical 44-byte header and the payload of
  the data chunk.
\<close>

fun le_nat :: "bytes \<Rightarrow> nat" where
  "le_nat [] = 0"
| "le_nat (b # bs) = unat b + 256 * le_nat bs"

record wav_info =
  wav_channels :: nat
  wav_framerate :: nat
  wav_bits_per_sample :: nat
  wav_frames :: bytes

definition field :: "nat \<Rightarrow> nat \<Rightarrow> bytes \<Rightarrow> bytes" where
  "field off n w = take n (drop off w)"

definition wav_decode :: "bytes \<Rightarrow> wav_info option" where
  "wav_decode w =
     (if 44 \<le> length w \<and> field 0 4 w = ascii ''RIFF'' \<and> field 8 4 w = ascii ''WAVE'' \<and>
         field 12 4 w = ascii ''fmt '' \<and> le_nat (field 16 4 w) = 16 \<and>
         le_nat (field 20 2 w) = 1 \<and> field 36 4 w = ascii ''data'' \<and>
         le_nat (field 40 4 w) \<le> length w - 44
      then Some \<lparr>wav_channels = le_nat (field 22 2 w),
                 wav_framerate = le_nat (field 24 4 w),
                 wav_bits_per_sample = le_nat (field 34 2 w),
                 wav_frames = take (le_nat (field 40 4 w)) (drop 44 w)\<rparr>
      else None)"

text \<open>A recorder with the default configuration, recording, with no observer.\<close>

definition default_recorder :: audio_recorder where
  "default_recorder =
     \<lparr>sample_rate = 16000, channels = 1, chunk_size = 1024, rec_format = PaInt16,
      rec_is_recording = True, audio_data = [], audio_stream = True, current_volume = 0,
      volume_callback = None, device_available = True, rec_delivered = [], rec_log = []\<rparr>"

subsection \<open>The volume as the specification words it\<close>

text \<open>
  For comparison with \<open>chunk_volume\<close>: the root mean square of a chunk's samples, read
  in the chunk's own format, over that format's full-scale value, clamped to \<open>[0, 1]\<close>.
  Integer formats are little-endian; the 8-bit format is unsigned around 128; the samples
  of the floating-point format are not decoded here.
\<close>

definition rms :: "int list \<Rightarrow> real" where
  "rms xs = sqrt (sum_list (map (\<lambda>x. (real_of_int x)\<^sup>2) xs) / real (length xs))"

definition signed_le :: "bytes \<Rightarrow> int" where
  "signed_le bs =
     (let u = int (le_nat bs); n = length bs
      in if u < 2 ^ (8 * n - 1) then u else u - 2 ^ (8 * n))"

fun int24_samples :: "bytes \<Rightarrow> int list" where
  "int24_samples (b0 # b1 # b2 # rest) = signed_le [b0, b1, b2] # int24_samples rest"
| "int24_samples _ = []"

fun int32_samples :: "bytes \<Rightarrow> int list" where
  "int32_samples (b0 # b1 # b2 # b3 # rest) = signed_le [b0, b1, b2, b3] # int32_samples rest"
| "int32_samples _ = []"

definition spec_format_samples :: "sample_format \<Rightarrow> bytes \<Rightarrow> int list option" where
  "spec_format_samples f chunk =
     (case f of
        PaInt16 \<Rightarrow> Some (int16_samples chunk)
      | PaInt24 \<Rightarrow> Some (int24_samples chunk)
      | PaInt32 \<Rightarrow> Some (int32_samples chunk)
      | PaUInt8 \<Rightarrow> Some (map (\<lambda>b. uint b - 128) chunk)
      | PaFloat32 \<Rightarrow> None)"

definition spec_full_scale :: "sample_format \<Rightarrow> real" where
  "spec_full_scale f =
     (case f of PaInt16 \<Rightarrow> 32768 | PaInt24 \<Rightarrow> 8388608 | PaInt32 \<Rightarrow> 2147483648
      | PaUInt8 \<Rightarrow> 128 | PaFloat32 \<Rightarrow> 1)"

definition spec_volume :: "sample_format \<Rightarrow> bytes \<Rightarrow> real option" where
  "spec_volume f chunk =
     map_option (\<lambda>xs. if xs = [] then 0 else max 0 (min 1 (rms xs / spec_full_scale f)))
       (spec_format_samples f chunk)"

text \<open>
  A recorder configured for 32-bit samples with an observer that returns normally, one
  with an observer that always raises, and a chunk of one 32-bit frame.
\<close>

definition int32_recorder :: audio_recorder where
  "int32_recorder = default_recorder\<lparr>rec_format := PaInt32, volume_callback := Some (\<lambda>v. None)\<rparr>"

definition raising_recorder :: audio_recorder where
  "raising_recorder = default_recorder\<lparr>volume_callback := Some (\<lambda>v. Some ''boom'')\<rparr>"

definition one_frame :: bytes where
  "one_frame = [0, 64, 0, 64]"

text \<open>Two chunks of one 16-bit frame each, and a recorder that has captured them.\<close>

definition first_chunk :: bytes where
  "first_chunk = [1, 2]"

definition second_chunk :: bytes where
  "second_chunk = [3, 4]"

definition two_chunks :: audio_recorder where
  "two_chunks = default_recorder\<lparr>audio_data := [first_chunk, second_chunk]\<rparr>"

section \<open>OpenAI client (openai\_client.py)\<close>

subsection \<open>Batch transcription\<close>

text \<open>The keyword arguments of \<^verbatim>\<open>client.audio.transcriptions.create\<close>.\<close>

record transcription_request =
  req_model :: string
  req_file :: bytes
  req_file_name :: string
  req_response_format :: string
  req_language :: "string option"

definition api_params :: "bytes \<Rightarrow> string \<Rightarrow> string option \<Rightarrow> transcription_request" where
  "api_params audio model language =
     \<lparr>req_model = ''whisper-1'', req_file = audio, req_file_name = ''audio.wav'',
      req_response_format = ''text'',
      req_language = (case language of
                        None \<Rightarrow> None
                      | Some l \<Rightarrow> if l \<noteq> [] then Some l else None)\<rparr>"

text \<open>
  The remote service is the environment: for a request it answers with a text, or the
  call raises an exception with a message.
\<close>

type_synonym transcription_service = "transcription_request \<Rightarrow> string + pystr"

text \<open>\<^verbatim>\<open>transcribe_audio\<close>: the exception is logged and raised again.\<close>

definition transcribe_audio ::
  "transcription_service \<Rightarrow> bytes \<Rightarrow> string \<Rightarrow> string option \<Rightarrow> string + pystr" where
  "transcribe_audio service audio model language =
     (case service (api_params audio model language) of
        Inl e \<Rightarrow> Inl e
      | Inr response \<Rightarrow> Inr (py_strip response))"

subsection \<open>Real-time session\<close>

text \<open>\<^verbatim>\<open>base64.b64encode\<close>, decoded as text.\<close>

definition b64_char :: "nat \<Rightarrow> char" where
  "b64_char n =
     ''ABCDEFGHIJKLMNOPQRSTUVWXYZabcdefghijklmnopqrstuvwxyz0123456789+/'' ! (n mod 64)"

fun b64encode :: "bytes \<Rightarrow> string" where
  "b64encode (a # b # c # rest) =
     (let n = unat a * 65536 + unat b * 256 + unat c
      in [b64_char (n div 262144), b64_char (n div 4096), b64_char (n div 64), b64_char n])
     @ b64encode rest"
| "b64encode [a, b] =
     (let n = unat a * 65536 + unat b * 256
      in [b64_char (n div 262144), b64_char (n div 4096), b64_char (n div 64), CHR ''=''])"
| "b64encode [a] =
     (let n = unat a * 65536
      in [b64_char (n div 262144), b64_char (n div 4096), CHR ''='', CHR ''=''])"
| "b64encode [] = []"

text \<open>
  The messages the client sends on the socket: the session configuration (a constant of
  the source) and the append message with its base64 text.
\<close>

datatype ws_message = Session_update | Input_audio_buffer_append string

text \<open>
  The real-time part of the client: the connected flag and the socket, \<open>None\<close> when
  there is none and otherwise the messages sent on it so far.
\<close>

record openai_client =
  realtime_connected :: bool
  realtime_websocket :: "ws_message list option"

definition new_client :: openai_client where
  "new_client = \<lparr>realtime_connected = False, realtime_websocket = None\<rparr>"

text \<open>
  \<^verbatim>\<open>start_realtime_session\<close> in its steps: the connection opens, then the configuration
  is sent.
\<close>

definition realtime_connect :: "openai_client \<Rightarrow> openai_client" where
  "realtime_connect cl = cl\<lparr>realtime_websocket := Some [], realtime_connected := True\<rparr>"

definition websocket_send :: "ws_message \<Rightarrow> openai_client \<Rightarrow> openai_client" where
  "websocket_send m cl =
     cl\<lparr>realtime_websocket := map_option (\<lambda>sent. sent @ [m]) (realtime_websocket cl)\<rparr>"

definition send_session_config :: "openai_client \<Rightarrow> openai_client" where
  "send_session_config cl = websocket_send Session_update cl"

definition send_audio_data :: "openai_client \<Rightarrow> bytes \<Rightarrow> openai_client" where
  "send_audio_data cl audio_chunk =
     (if \<not> realtime_connected cl \<or> realtime_websocket cl = None then cl
      else websocket_send (Input_audio_buffer_append (b64encode audio_chunk)) cl)"

text \<open>
  The session manager. Its event loop is \<open>None\<close> until the session thread creates it,
  and then holds the \<^verbatim>\<open>send_audio_data\<close> coroutines scheduled on it and not yet run.
\<close>

record realtime_session_manager =
  mgr_client :: openai_client
  mgr_is_active :: bool
  mgr_loop :: "bytes list option"

definition new_manager :: realtime_session_manager where
  "new_manager = \<lparr>mgr_client = new_client, mgr_is_active = False, mgr_loop = None\<rparr>"

definition start_session :: "realtime_session_manager \<Rightarrow> realtime_session_manager" where
  "start_session m = (if mgr_is_active m then m else m\<lparr>mgr_is_active := True\<rparr>)"

definition send_audio :: "realtime_session_manager \<Rightarrow> bytes \<Rightarrow> realtime_session_manager" where
  "send_audio m audio =
     (case mgr_loop m of
        Some scheduled \<Rightarrow>
          if mgr_is_active m then m\<lparr>mgr_loop := Some (scheduled @ [audio])\<rparr> else m
      | None \<Rightarrow> m)"

text \<open>
  The steps of \<^verbatim>\<open>_run_session_loop\<close> on the session thread: the loop is created; the
  loop runs the coroutines scheduled so far, in order, whenever the session coroutine
  waits; the connection opens; the configuration is sent.
\<close>

definition create_loop :: "realtime_session_manager \<Rightarrow> realtime_session_manager" where
  "create_loop m = m\<lparr>mgr_loop := Some []\<rparr>"

definition run_scheduled :: "realtime_session_manager \<Rightarrow> realtime_session_manager" where
  "run_scheduled m =
     (case mgr_loop m of
        None \<Rightarrow> m
      | Some scheduled \<Rightarrow>
          m\<lparr>mgr_client := foldl send_audio_data (mgr_client m) scheduled, mgr_loop := Some []\<rparr>)"

definition session_connect :: "realtime_session_manager \<Rightarrow> realtime_session_manager" where
  "session_connect m = m\<lparr>mgr_client := realtime_connect (mgr_client m)\<rparr>"

definition session_configure :: "realtime_session_manager \<Rightarrow> realtime_session_manager" where
  "session_configure m = m\<lparr>mgr_client := send_session_config (mgr_client m)\<rparr>"

text \<open>
  A session in which one chunk is fed before the loop exists and one while the
  connection is still opening, and a third after the configuration.
\<close>

definition early_feed :: realtime_session_manager where
  "early_feed =
     run_scheduled (send_audio (session_configure (session_connect (run_scheduled
       (send_audio (create_loop (send_audio (start_session new_manager) [1, 2])) [3, 4]))))
       [104, 105])"

section \<open>Controller (menu\_bar.py)\<close>

datatype icon = Icon_no_key | Icon_transcribing | Icon_recording | Icon_idle

datatype app_log = App_info string | App_warning string | App_error string

text \<open>
  The application object: the configuration values it reads, its state flags, the four
  flags the background threads leave for the main thread, the recorder, and the menu.
  \<open>processing_threads\<close> lists the audio handed to each \<^verbatim>\<open>_process_audio\<close> thread
  started and not yet finished. The remaining fields are traces of the calls to the
  collaborators: text insertion, conversation logging, notifications, alerts, logger.
\<close>

record app =
  api_key :: pystr
  model_transcribe :: string
  language_recognition :: string
  is_recording :: bool
  is_transcribing :: bool
  pending_start_recording :: bool
  pending_stop_recording :: bool
  pending_set_transcribing :: bool
  pending_clear_transcribing :: bool
  app_recorder :: audio_recorder
  recording_menu_item :: string
  title :: icon
  processing_threads :: "bytes list"
  inserted_text :: "pystr list"
  logged_interactions :: "(bytes \<times> pystr \<times> string) list"
  notifications :: "(string \<times> string \<times> string) list"
  alerts :: "(string \<times> string) list"
  app_log :: "app_log list"

definition app_logging :: "app_log \<Rightarrow> app \<Rightarrow> app" where
  "app_logging l a = a\<lparr>app_log := app_log a @ [l]\<rparr>"

text \<open>\<^verbatim>\<open>ConfigManager.validate_api_key\<close>.\<close>

definition validate_api_key :: "app \<Rightarrow> bool" where
  "validate_api_key a \<longleftrightarrow> api_key a \<noteq> [] \<and> py_strip (api_key a) \<noteq> []"

definition update_menu_state :: "app \<Rightarrow> app" where
  "update_menu_state a =
     (let a1 = a\<lparr>recording_menu_item :=
                   (if is_recording a then ''Stop Recording'' else ''Start Recording'')\<rparr>;
          new_icon = (if \<not> validate_api_key a1 then Icon_no_key
                      else if is_transcribing a1 then Icon_transcribing
                      else if is_recording a1 then Icon_recording
                      else Icon_idle)
      in a1\<lparr>title := new_icon\<rparr>)"

definition start_recording_main_thread :: "app \<Rightarrow> app" where
  "start_recording_main_thread a =
     (if is_recording a
      then app_logging (App_warning ''Already recording, ignoring start request'') a
      else if \<not> validate_api_key a
      then a\<lparr>alerts := alerts a @ [(''API Key Required'',
                ''Please configure your OpenAI API key in Settings.'')]\<rparr>
      else
        (let a1 = a\<lparr>is_recording := True\<rparr>
         in case start_recording (app_recorder a1) of
              (r, None) \<Rightarrow> update_menu_state (a1\<lparr>app_recorder := r\<rparr>)
            | (r, Some e) \<Rightarrow>
                (app_logging (App_error ''Error starting recording in main thread'')
                   (a1\<lparr>app_recorder := r\<rparr>))
                \<lparr>is_recording := False,
                 alerts := alerts a1 @ [(''Recording Error'', ''Failed to start recording'')]\<rparr>))"

definition stop_recording_main_thread :: "app \<Rightarrow> app" where
  "stop_recording_main_thread a =
     (if \<not> is_recording a
      then app_logging (App_warning ''Not recording, ignoring stop request'') a
      else
        (let a1 = a\<lparr>is_recording := False\<rparr>
         in case stop_recording (app_recorder a1) of
              (r, audio) \<Rightarrow>
                update_menu_state
                  (a1\<lparr>app_recorder := r,
                      processing_threads := processing_threads a1 @ [audio]\<rparr>)))"

text \<open>
  One tick of the 100 ms timer on the main thread. Its first statement, the start or stop
  request of lines 72 to 77, is \<open>tick_recording\<close>.
\<close>

definition tick_recording :: "app \<Rightarrow> app" where
  "tick_recording a =
     (if pending_start_recording a \<and> \<not> is_recording a
      then start_recording_main_thread (a\<lparr>pending_start_recording := False\<rparr>)
      else if pending_stop_recording a \<and> is_recording a
      then stop_recording_main_thread (a\<lparr>pending_stop_recording := False\<rparr>)
      else a)"

definition process_pending_ui_operations :: "app \<Rightarrow> app" where
  "process_pending_ui_operations a =
     (let a1 = tick_recording a;
          a2 = (if pending_set_transcribing a1
                then app_logging (App_info ''Started transcribing...'')
                       (update_menu_state
                          (a1\<lparr>pending_set_transcribing := False, is_transcribing := True\<rparr>))
                else a1);
          a3 = (if pending_clear_transcribing a2
                then app_logging (App_info ''Transcription completed'')
                       (update_menu_state
                          (a2\<lparr>pending_clear_transcribing := False, is_transcribing := False\<rparr>))
                else a2)
      in a3)"

text \<open>\<^verbatim>\<open>_handle_hotkey\<close>: the activation signal, run on the callback thread.\<close>

definition handle_hotkey :: "app \<Rightarrow> string \<Rightarrow> app" where
  "handle_hotkey a key =
     (if is_recording a
      then a\<lparr>pending_stop_recording := True, pending_start_recording := False\<rparr>
      else a\<lparr>pending_start_recording := True, pending_stop_recording := False\<rparr>)"

text \<open>
  \<^verbatim>\<open>_process_audio\<close>, on its own thread, in two steps between which the main thread may
  tick: up to the call of the service, and from its answer on. The calls to the
  conversation logger and the text injector are recorded and taken to return normally.
\<close>

definition process_audio_start :: "app \<Rightarrow> app" where
  "process_audio_start a = a\<lparr>pending_set_transcribing := True\<rparr>"

definition language_param :: "app \<Rightarrow> string option" where
  "language_param a =
     (if language_recognition a = ''auto'' then None else Some (language_recognition a))"

definition process_audio_complete :: "app \<Rightarrow> transcription_service \<Rightarrow> bytes \<Rightarrow> app" where
  "process_audio_complete a service audio =
     (let a1 =
        (case transcribe_audio service audio (model_transcribe a) (language_param a) of
           Inr transcription \<Rightarrow>
             if transcription \<noteq> [] \<and> py_strip transcription \<noteq> []
             then a\<lparr>logged_interactions :=
                      logged_interactions a @ [(audio, transcription, ''transcribe'')],
                    inserted_text := inserted_text a @ [transcription]\<rparr>
             else app_logging (App_warning ''No transcription result'') a
         | Inl e \<Rightarrow>
             (app_logging (App_error (''Error processing audio: '' @ e)) a)
               \<lparr>notifications := notifications a @
                  [(''SpeechTide'', ''Transcription Error'', ''Failed to process audio: '' @ e)]\<rparr>)
      in a1\<lparr>pending_clear_transcribing := True\<rparr>)"

definition process_audio :: "app \<Rightarrow> transcription_service \<Rightarrow> bytes \<Rightarrow> app" where
  "process_audio a service audio =
     process_audio_complete (process_audio_start a) service audio"

text \<open>
  The application after start-up with a key configured, and a service that answers every
  request with the same text or fails every request.
\<close>

definition idle_recorder :: audio_recorder where
  "idle_recorder = default_recorder\<lparr>rec_is_recording := False, audio_stream := False\<rparr>"

definition idle_app :: app where
  "idle_app =
     \<lparr>api_key = [115, 107], model_transcribe = ''gpt-4o-mini'',
      language_recognition = ''auto'', is_recording = False, is_transcribing = False,
      pending_start_recording = False, pending_stop_recording = False,
      pending_set_transcribing = False, pending_clear_transcribing = False,
      app_recorder = idle_recorder, recording_menu_item = ''Start Recording'',
      title = Icon_idle, processing_threads = [], inserted_text = [],
      logged_interactions = [], notifications = [], alerts = [], app_log = []\<rparr>"



text \<open>
  A run of the controller up to a transcription in flight. The hotkey fires and the main
  thread ticks: \<open>recording_app\<close>. The audio thread delivers two chunks:
  \<open>captured_app\<close>. The hotkey fires again, the main thread ticks and hands the audio
  to a processing thread, which reaches the service call, and the main thread ticks once
  more: \<open>transcribing_app\<close>.
\<close>

definition started_recorder :: audio_recorder where
  "started_recorder = fst (start_recording idle_recorder)"

definition recording_app :: app where
  "recording_app =
     idle_app\<lparr>is_recording := True, app_recorder := started_recorder,
       recording_menu_item := ''Stop Recording'', title := Icon_recording\<rparr>"

definition captured_recorder :: audio_recorder where
  "captured_recorder =
     fst (audio_callback (fst (audio_callback started_recorder first_chunk)) second_chunk)"

definition captured_app :: app where
  "captured_app = recording_app\<lparr>app_recorder := captured_recorder\<rparr>"

definition transcribing_app :: app where
  "transcribing_app =
     captured_app\<lparr>is_recording := False, is_transcribing := True,
       app_recorder := fst (stop_recording captured_recorder),
       processing_threads := [snd (stop_recording captured_recorder)],
       recording_menu_item := ''Start Recording'', title := Icon_transcribing,
       app_log := [App_info ''Started transcribing...'']\<rparr>"

chapter \<open>Properties\<close>

section \<open>Hotkey manager\<close>

text \<open>
  Whenever the press and the release of the trigger key are handled on the same thread,
  the hold duration the manager logs and classifies is 0.
\<close>

lemma same_thread_hold_duration_zero:
  assumes "ev_key p = primary_key hk" and "ev_key r = primary_key hk"
    and "ev_thread_ident r = ev_thread_ident p"
  shows "Hotkey_released (primary_key_name hk) 0
           \<in> set (hk_log (on_key_release (on_key_press hk p) r))"
  using assms
  by (simp add: on_key_release_def on_key_press_def handle_hotkey_press_def
      handle_hotkey_release_def trigger_hotkey_def current_time_def Let_def)

text \<open>
  C2. The claim: the hold duration used for classification is the release event's
  wall-clock time minus the press event's wall-clock time. The handlers take the
  identifier of the current thread for the time, so the duration is the difference of two
  thread identifiers. In the scenario below the key is held for 5 seconds in hold mode;
  the duration the manager logs and classifies is 0, and it dispatches nothing.
\<close>

theorem hold_duration_is_thread_ident_difference:
  "hk_log (on_key_release (on_key_press (right_cmd_manager ''hold'') press_ev) release_ev)
     = [Hotkey_pressed ''right_cmd'', Hotkey_released ''right_cmd'' 0]
   \<and> ev_time release_ev - ev_time press_ev = 5
   \<and> hk_dispatched (on_key_release (on_key_press (right_cmd_manager ''hold'') press_ev) release_ev) = []"
  by (simp add: on_key_release_def on_key_press_def right_cmd_manager_def press_ev_def
      release_ev_def handle_hotkey_press_def handle_hotkey_release_def trigger_hotkey_def
      current_time_def Let_def)

text \<open>
  C3, as stated: in hold mode a release after less than the threshold emits an activate
  signal. It does not: after a press at time 0 and a release at 50 ms, with the threshold
  at 100 ms, nothing has been dispatched.
\<close>

theorem hold_short_tap_emits_nothing_counterexample:
  "\<not> (''right_cmd'' \<in> set (hk_dispatched
        (handle_hotkey_release
          (handle_hotkey_press (right_cmd_manager ''hold'') ''right_cmd'' 0)
          ''right_cmd'' (1 / 20))))"
  by (simp add: handle_hotkey_press_def handle_hotkey_release_def trigger_hotkey_def
      right_cmd_manager_def Let_def)

text \<open>
  C3, amended: in hold mode, a release of the trigger key whose hold duration is strictly
  less than the threshold emits no signal at all, and forgets the press.
\<close>

theorem hold_short_release_emits_no_signal:
  assumes "interaction_mode hk = ''hold''"
    and "key_pressed_time hk key_name = Some press_time"
    and "release_time - press_time < hold_threshold hk"
  shows "hk_dispatched (handle_hotkey_release hk key_name release_time) = hk_dispatched hk
    \<and> key_pressed_time (handle_hotkey_release hk key_name release_time) key_name = None"
  using assms by (simp add: handle_hotkey_release_def Let_def)

theorem hold_short_release_emits_no_signal_witness:
  "interaction_mode (handle_hotkey_press (right_cmd_manager ''hold'') ''right_cmd'' 0) = ''hold''
   \<and> key_pressed_time (handle_hotkey_press (right_cmd_manager ''hold'') ''right_cmd'' 0)
        ''right_cmd'' = Some 0
   \<and> (1 / 20 :: rat) - 0 < hold_threshold (handle_hotkey_press (right_cmd_manager ''hold'') ''right_cmd'' 0)
   \<and> hk_dispatched (handle_hotkey_release
        (handle_hotkey_press (right_cmd_manager ''hold'') ''right_cmd'' 0) ''right_cmd'' (1 / 20))
      = []"
  using hold_short_release_emits_no_signal
    [of "handle_hotkey_press (right_cmd_manager ''hold'') ''right_cmd'' 0" "''right_cmd''" 0 "1 / 20"]
  by (simp add: handle_hotkey_press_def right_cmd_manager_def Let_def)

section \<open>Audio recorder: the capture callback\<close>

lemma int16_le_bounds: "- 32768 \<le> int16_le lo hi \<and> int16_le lo hi \<le> 32767"
proof -
  define u where "u = uint lo + 256 * uint hi"
  have "uint lo < 256" "uint hi < 256"
    using uint_lt2p [of lo] uint_lt2p [of hi] by simp_all
  moreover have "0 \<le> uint lo" "0 \<le> uint hi" by simp_all
  ultimately have "0 \<le> u" "u < 65536" unfolding u_def by linarith+
  then have "- 32768 \<le> (if u < 32768 then u else u - 65536) \<and>
             (if u < 32768 then u else u - 65536) \<le> 32767"
    by (cases "u < 32768") simp_all
  from this [unfolded u_def] show ?thesis unfolding int16_le_def Let_def .
qed

lemma int16_samples_bounds: "x \<in> set (int16_samples bs) \<Longrightarrow> - 32768 \<le> x \<and> x \<le> 32767"
  by (induction bs arbitrary: x rule: int16_samples.induct) (auto simp: int16_le_bounds)

lemma sum_squares_bound:
  "(\<And>x. x \<in> set xs \<Longrightarrow> - 32768 \<le> x \<and> x \<le> 32767) \<Longrightarrow>
   sum_list (map (\<lambda>x. (real_of_int x)\<^sup>2) xs) \<le> real (length xs) * 32768\<^sup>2"
proof (induction xs)
  case Nil
  then show ?case by simp
next
  case (Cons a xs)
  have a: "- 32768 \<le> a \<and> a \<le> 32767" using Cons.prems by simp
  then have "\<bar>a\<bar> \<le> \<bar>32768\<bar>" by linarith
  then have "a\<^sup>2 \<le> 32768\<^sup>2" by (simp only: abs_le_square_iff)
  then have "real_of_int (a\<^sup>2) \<le> real_of_int (32768\<^sup>2)" by (simp only: of_int_le_iff)
  then have "(real_of_int a)\<^sup>2 \<le> 32768\<^sup>2" by simp
  moreover have "sum_list (map (\<lambda>x. (real_of_int x)\<^sup>2) xs) \<le> real (length xs) * 32768\<^sup>2"
    using Cons by simp
  ultimately show ?case by (simp add: algebra_simps)
qed

lemma sum_squares_nonneg: "0 \<le> sum_list (map (\<lambda>x. (real_of_int x)\<^sup>2) xs)"
  by (induction xs) auto

lemma chunk_volume_rms: "xs \<noteq> [] \<Longrightarrow> chunk_volume xs = rms xs / 32768"
  using sum_squares_nonneg [of xs]
  by (simp add: chunk_volume_def rms_def np_isfinite_def Let_def)

lemma chunk_volume_range:
  assumes "\<And>x. x \<in> set xs \<Longrightarrow> - 32768 \<le> x \<and> x \<le> 32767"
  shows "0 \<le> chunk_volume xs \<and> chunk_volume xs \<le> 1"
proof (cases "xs = []")
  case True
  then show ?thesis by (simp add: chunk_volume_def)
next
  case False
  let ?s = "sum_list (map (\<lambda>x. (real_of_int x)\<^sup>2) xs)"
  let ?n = "real (length xs)"
  have n: "0 < ?n" using False by simp
  have "?s \<le> ?n * 32768\<^sup>2" using sum_squares_bound [OF assms] by simp
  then have "?s / ?n \<le> 32768\<^sup>2" using n by (simp add: pos_divide_le_eq mult.commute)
  then have "sqrt (?s / ?n) \<le> sqrt (32768\<^sup>2)" by (rule real_sqrt_le_mono)
  then have le: "sqrt (?s / ?n) \<le> 32768" by simp
  have ge: "0 \<le> sqrt (?s / ?n)" using sum_squares_nonneg [of xs] n by simp
  show ?thesis using le ge False by (simp add: chunk_volume_rms rms_def)
qed

lemma chunk_volume_Nil: "chunk_volume [] = 0"
  by (simp add: chunk_volume_def)

lemma audio_callback_result:
  "rec_is_recording r \<Longrightarrow> even (length in_data) \<Longrightarrow>
   snd (audio_callback r in_data) = Inr (in_data, PaContinue)"
  by (simp add: audio_callback_def frombuffer_int16_def Let_def)

lemma rec_delivered_notify_volume:
  "rec_delivered (notify_volume r) =
     rec_delivered r @ (case volume_callback r of None \<Rightarrow> [] | Some f \<Rightarrow> [current_volume r])"
  by (simp add: notify_volume_def rec_logging_def Let_def split: option.splits)

lemma audio_callback_delivered:
  "rec_is_recording r \<Longrightarrow> even (length in_data) \<Longrightarrow>
   rec_delivered (fst (audio_callback r in_data)) =
     rec_delivered r @ (case volume_callback r of None \<Rightarrow> []
                        | Some f \<Rightarrow> [chunk_volume (int16_samples in_data)])"
  by (simp add: audio_callback_def frombuffer_int16_def Let_def rec_delivered_notify_volume
      split: option.splits)

lemma sqrt_268435456: "sqrt 268435456 = 16384"
  by (rule real_sqrt_unique) simp_all

text \<open>
  C5, as stated: the value delivered to the observer is the chunk's root mean square over
  the full-scale value of the format. The callback reads every chunk as 16-bit samples and
  divides by 32768 whatever the configured format: with 32-bit samples configured, the
  one-frame chunk \<open>00 40 00 40\<close> is delivered as 1/2, while its one sample
  \<open>0x40004000\<close> over \<open>2^31\<close> is 65537/131072.
\<close>

theorem volume_ignores_format_counterexample:
  "rec_delivered (fst (audio_callback int32_recorder one_frame)) = [1 / 2]
   \<and> spec_volume (rec_format int32_recorder) one_frame = Some (65537 / 131072)"
  by (simp add: audio_callback_def int32_recorder_def default_recorder_def one_frame_def
      frombuffer_int16_def notify_volume_def rec_logging_def Let_def chunk_volume_def
      np_isfinite_def int16_le_def spec_volume_def spec_format_samples_def spec_full_scale_def
      rms_def signed_le_def sqrt_268435456)

text \<open>
  C5, amended: for every chunk of even length processed while recording, the callback
  returns the chunk with the continue flag; the observer, when one is registered, is
  invoked exactly once and otherwise not at all; the value delivered is the root mean
  square of the chunk read as little-endian signed 16-bit samples, divided by 32768
  (0 for an empty chunk), whatever the configured format; and it lies in \<open>[0, 1]\<close>. The
  mean of the squares is never negative, so the fallback to 0 is never taken. Numbers are
  real numbers here, not 64-bit floats.
\<close>

theorem volume_delivered_once_in_unit_interval:
  assumes "rec_is_recording r" and "even (length in_data)"
  shows "snd (audio_callback r in_data) = Inr (in_data, PaContinue)
    \<and> rec_delivered (fst (audio_callback r in_data)) =
        rec_delivered r @ (case volume_callback r of None \<Rightarrow> []
                           | Some f \<Rightarrow> [chunk_volume (int16_samples in_data)])
    \<and> 0 \<le> chunk_volume (int16_samples in_data) \<and> chunk_volume (int16_samples in_data) \<le> 1
    \<and> chunk_volume (int16_samples in_data) =
        (if int16_samples in_data = [] then 0 else rms (int16_samples in_data) / 32768)"
proof -
  have "0 \<le> chunk_volume (int16_samples in_data) \<and> chunk_volume (int16_samples in_data) \<le> 1"
    by (rule chunk_volume_range) (rule int16_samples_bounds)
  moreover have "chunk_volume (int16_samples in_data) =
        (if int16_samples in_data = [] then 0 else rms (int16_samples in_data) / 32768)"
    by (simp add: chunk_volume_Nil chunk_volume_rms)
  ultimately show ?thesis
    using audio_callback_result [OF assms] audio_callback_delivered [OF assms] by simp
qed

theorem volume_delivered_once_in_unit_interval_witness:
  "rec_is_recording int32_recorder \<and> even (length one_frame)
   \<and> snd (audio_callback int32_recorder one_frame) = Inr (one_frame, PaContinue)
   \<and> rec_delivered (fst (audio_callback int32_recorder one_frame))
       = [chunk_volume (int16_samples one_frame)]
   \<and> chunk_volume (int16_samples one_frame) \<le> 1"
  using volume_delivered_once_in_unit_interval [of int32_recorder one_frame]
  by (simp add: int32_recorder_def default_recorder_def one_frame_def)

text \<open>
  C10: if the registered volume observer raises during a capture callback, the exception
  is contained. The chunk has been appended to the recording buffer, the callback returns
  the chunk with the continue flag, the recorder is still recording on the same stream,
  and the only trace is an error line in the log. The observer is reached only when the
  chunk has an even number of bytes.
\<close>

theorem observer_exception_contained:
  assumes "rec_is_recording r" and "even (length in_data)"
    and "volume_callback r = Some f"
    and "f (chunk_volume (int16_samples in_data)) = Some msg"
  shows "snd (audio_callback r in_data) = Inr (in_data, PaContinue)
    \<and> audio_data (fst (audio_callback r in_data)) = audio_data r @ [in_data]
    \<and> rec_is_recording (fst (audio_callback r in_data))
    \<and> audio_stream (fst (audio_callback r in_data)) = audio_stream r
    \<and> rec_log (fst (audio_callback r in_data))
        = rec_log r @ [Rec_error (''Error in volume callback: '' @ msg)]"
  using assms
  by (simp add: audio_callback_def frombuffer_int16_def notify_volume_def rec_logging_def Let_def)

theorem observer_exception_contained_witness:
  "rec_is_recording raising_recorder \<and> even (length one_frame)
   \<and> volume_callback raising_recorder = Some (\<lambda>v. Some ''boom'')
   \<and> snd (audio_callback raising_recorder one_frame) = Inr (one_frame, PaContinue)
   \<and> audio_data (fst (audio_callback raising_recorder one_frame)) = [one_frame]
   \<and> rec_is_recording (fst (audio_callback raising_recorder one_frame))"
  using observer_exception_contained
    [of raising_recorder one_frame "\<lambda>v. Some ''boom''" "''boom''"]
  by (simp add: raising_recorder_def default_recorder_def one_frame_def)

section \<open>Audio recorder: the WAV container\<close>

lemma length_le_bytes: "length (le_bytes n v) = n"
  by (induction n arbitrary: v) simp_all

lemma le_nat_le_bytes: "v < 256 ^ n \<Longrightarrow> le_nat (le_bytes n v) = v"
proof (induction n arbitrary: v)
  case 0
  then show ?case by simp
next
  case (Suc n)
  have "v div 256 < 256 ^ n" using Suc.prems by (simp add: less_mult_imp_div_less mult.commute)
  then have "le_nat (le_bytes n (v div 256)) = v div 256" by (rule Suc.IH)
  moreover have "unat (of_nat (v mod 256) :: byte) = v mod 256"
    by (simp add: unat_of_nat)
  ultimately show ?case by simp
qed

lemma length_ascii: "length (ascii s) = length s"
  by (simp add: ascii_def)

lemma le_nat_pack_L: "fits_L v \<Longrightarrow> le_nat (pack_L v) = nat v"
proof -
  assume "fits_L v"
  then have "nat v < 256 ^ 4" by (simp add: fits_L_def nat_less_iff)
  then show ?thesis unfolding pack_L_def by (rule le_nat_le_bytes)
qed

lemma le_nat_pack_H: "fits_H v \<Longrightarrow> le_nat (pack_H v) = nat v"
proof -
  assume "fits_H v"
  then have "nat v < 256 ^ 2" by (simp add: fits_H_def nat_less_iff)
  then show ?thesis unfolding pack_H_def by (rule le_nat_le_bytes)
qed

lemma length_pack: "length (pack_L v) = 4" "length (pack_H v) = 2"
  by (simp_all add: pack_L_def pack_H_def length_le_bytes)

lemma length_wav_header: "length (wav_header c w f d) = 44"
  by (simp add: wav_header_def length_ascii length_pack)

lemma field_here: "length a = n \<Longrightarrow> field 0 n (a @ rest) = a"
  by (simp add: field_def)

lemma field_skip: "length a \<le> off \<Longrightarrow> field off n (a @ rest) = field (off - length a) n rest"
  by (simp add: field_def)

lemma wav_decode_header:
  assumes "fits_L (36 + int (length data))" "fits_H c" "fits_L f" "fits_H (w * 8)"
  shows "wav_decode (wav_header c w f (int (length data)) @ data) =
     Some \<lparr>wav_channels = nat c, wav_framerate = nat f, wav_bits_per_sample = nat (w * 8),
           wav_frames = data\<rparr>"
proof -
  let ?wav = "wav_header c w f (int (length data)) @ data"
  have L: "fits_L (int (length data))" "fits_L 16" "fits_H 1"
    using assms(1) by (simp_all add: fits_L_def fits_H_def)
  have f0: "field 0 4 ?wav = ascii ''RIFF''"
    by (simp add: wav_header_def field_here length_ascii)
  have f8: "field 8 4 ?wav = ascii ''WAVE''"
    by (simp add: wav_header_def field_here field_skip length_ascii length_pack)
  have f12: "field 12 4 ?wav = ascii ''fmt ''"
    by (simp add: wav_header_def field_here field_skip length_ascii length_pack)
  have f16: "field 16 4 ?wav = pack_L 16"
    by (simp add: wav_header_def field_here field_skip length_ascii length_pack)
  have f20: "field 20 2 ?wav = pack_H 1"
    by (simp add: wav_header_def field_here field_skip length_ascii length_pack)
  have f22: "field 22 2 ?wav = pack_H c"
    by (simp add: wav_header_def field_here field_skip length_ascii length_pack)
  have f24: "field 24 4 ?wav = pack_L f"
    by (simp add: wav_header_def field_here field_skip length_ascii length_pack)
  have f34: "field 34 2 ?wav = pack_H (w * 8)"
    by (simp add: wav_header_def field_here field_skip length_ascii length_pack)
  have f36: "field 36 4 ?wav = ascii ''data''"
    by (simp add: wav_header_def field_here field_skip length_ascii length_pack)
  have f40: "field 40 4 ?wav = pack_L (int (length data))"
    by (simp add: wav_header_def field_here field_skip length_ascii length_pack)
  have len: "length ?wav = 44 + length data" by (simp add: length_wav_header)
  have d: "drop 44 ?wav = data" by (simp add: length_wav_header)
  show ?thesis
    unfolding wav_decode_def f0 f8 f12 f16 f20 f22 f24 f34 f36 f40 len d
    using assms L by (simp add: le_nat_pack_L le_nat_pack_H)
qed


lemma get_sample_size_range: "1 \<le> get_sample_size f \<and> get_sample_size f \<le> 4"
  by (cases f) (simp_all add: get_sample_size_def)

lemma whole_frames_bounds:
  assumes "0 < k" and "0 \<le> (len :: int)"
  shows "0 \<le> len div k * k \<and> len div k * k \<le> len"
proof -
  have "len div k * k = len - len mod k" by (simp add: minus_mod_eq_div_mult)
  moreover have "0 \<le> len mod k" "len mod k \<le> len"
    using assms by (simp_all add: zmod_le_nonneg_dividend)
  ultimately show ?thesis by linarith
qed

lemma wave_write_ok:
  assumes "1 \<le> c" "fits_H c" "1 \<le> sw" "sw \<le> 4" "1 \<le> f" "fits_L f"
    and "fits_L (c * f * sw)" "fits_H (c * sw)" "fits_L (36 + int (length data))"
  shows "wave_write c sw f data = Inr (wav_header c sw f (int (length data)) @ data)"
proof -
  let ?len = "int (length data)"
  have k: "0 < c * sw" using assms(1,3) by simp
  have b: "0 \<le> ?len div (c * sw) * (c * sw) \<and> ?len div (c * sw) * (c * sw) \<le> ?len"
    using whole_frames_bounds [OF k, of ?len] by simp
  have eq: "?len div (c * sw) * c * sw = ?len div (c * sw) * (c * sw)" by (simp add: mult.assoc)
  have "fits_L (36 + ?len div (c * sw) * c * sw)"
    using b assms(9) unfolding eq fits_L_def by linarith
  moreover have "fits_H (sw * 8)" using assms(3,4) by (simp add: fits_H_def)
  ultimately show ?thesis using assms by (simp add: wave_write_def Let_def)
qed

lemma le_bytes_2: "le_bytes 2 v = [of_nat (v mod 256), of_nat (v div 256 mod 256)]"
proof -
  have "le_bytes (Suc (Suc 0)) v = [of_nat (v mod 256), of_nat (v div 256 mod 256)]" by simp
  then show ?thesis by (simp only: numeral_2_eq_2)
qed

lemma le_bytes_4:
  "le_bytes 4 v = [of_nat (v mod 256), of_nat (v div 256 mod 256),
     of_nat (v div 256 div 256 mod 256), of_nat (v div 256 div 256 div 256 mod 256)]"
proof -
  have "le_bytes (Suc (Suc (Suc (Suc 0)))) v = [of_nat (v mod 256), of_nat (v div 256 mod 256),
     of_nat (v div 256 div 256 mod 256), of_nat (v div 256 div 256 div 256 mod 256)]" by simp
  moreover have "(4::nat) = Suc (Suc (Suc (Suc 0)))" by simp
  ultimately show ?thesis by (simp only:)
qed

text \<open>
  The bytes for one chunk \<open>01 02 03\<close> with the default configuration are the bytes the
  \<^verbatim>\<open>wave\<close> module of CPython 3.11 writes for the same calls.
\<close>

lemma stop_recording_reference_bytes:
  "snd (stop_recording (default_recorder\<lparr>audio_data := [1, 2, 3] # []\<rparr>)) =
     [82, 73, 70, 70, 39, 0, 0, 0, 87, 65, 86, 69, 102, 109, 116, 32, 16, 0, 0, 0, 1, 0, 1, 0,
      128, 62, 0, 0, 0, 125, 0, 0, 2, 0, 16, 0, 100, 97, 116, 97, 3, 0, 0, 0, 1, 2, 3]"
  by (simp add: stop_recording_def default_recorder_def rec_logging_def Let_def
      create_wav_data_def wave_write_def get_sample_size_def fits_L_def fits_H_def
      wav_header_def ascii_def pack_L_def pack_H_def le_bytes_2 le_bytes_4)

text \<open>
  C6, as stated: for any sequence of captured chunks, stopping produces a container. For
  the empty sequence it does not: the recorder returns the empty byte string, which has no
  header.
\<close>

theorem stop_without_chunks_counterexample:
  "rec_is_recording default_recorder \<and> audio_data default_recorder = []
   \<and> snd (stop_recording default_recorder) = []
   \<and> wav_decode (snd (stop_recording default_recorder)) = None"
  by (simp add: stop_recording_def default_recorder_def rec_logging_def wav_decode_def Let_def)

text \<open>
  C6, amended: for any non-empty sequence of captured chunks, with a channel count of
  1 to 65535, a sample rate of 1 to \<open>2^32 - 1\<close>, a byte rate and a frame size that fit
  their header fields and less than \<open>2^32 - 36\<close> bytes of samples, stopping the recording
  produces a container whose header declares the configured channel count and sample
  rate and eight times the sample size of the format as bits per sample, and whose data
  chunk is exactly the concatenation of the chunks in capture order.
\<close>

theorem stop_recording_roundtrip:
  assumes "rec_is_recording r" and "audio_data r \<noteq> []"
    and "1 \<le> channels r" and "fits_H (channels r)"
    and "1 \<le> sample_rate r" and "fits_L (sample_rate r)"
    and "fits_L (channels r * sample_rate r * get_sample_size (rec_format r))"
    and "fits_H (channels r * get_sample_size (rec_format r))"
    and "fits_L (36 + int (length (concat (audio_data r))))"
  shows "wav_decode (snd (stop_recording r)) =
     Some \<lparr>wav_channels = nat (channels r), wav_framerate = nat (sample_rate r),
           wav_bits_per_sample = nat (get_sample_size (rec_format r) * 8),
           wav_frames = concat (audio_data r)\<rparr>"
proof -
  let ?sw = "get_sample_size (rec_format r)"
  let ?data = "concat (audio_data r)"
  have w: "wave_write (channels r) ?sw (sample_rate r) ?data =
      Inr (wav_header (channels r) ?sw (sample_rate r) (int (length ?data)) @ ?data)"
    using assms get_sample_size_range [of "rec_format r"] by (intro wave_write_ok) simp_all
  have "snd (stop_recording r) =
      wav_header (channels r) ?sw (sample_rate r) (int (length ?data)) @ ?data"
    using assms(1,2) w by (simp add: stop_recording_def create_wav_data_def Let_def)
  moreover have "fits_H (?sw * 8)"
    using get_sample_size_range [of "rec_format r"] by (simp add: fits_H_def)
  ultimately show ?thesis using assms by (simp add: wav_decode_header)
qed

theorem stop_recording_roundtrip_witness:
  "rec_is_recording two_chunks \<and> audio_data two_chunks \<noteq> []
   \<and> 1 \<le> channels two_chunks \<and> fits_H (channels two_chunks)
   \<and> 1 \<le> sample_rate two_chunks \<and> fits_L (sample_rate two_chunks)
   \<and> fits_L (channels two_chunks * sample_rate two_chunks * get_sample_size (rec_format two_chunks))
   \<and> fits_H (channels two_chunks * get_sample_size (rec_format two_chunks))
   \<and> fits_L (36 + int (length (concat (audio_data two_chunks))))
   \<and> wav_decode (snd (stop_recording two_chunks)) =
       Some \<lparr>wav_channels = 1, wav_framerate = 16000, wav_bits_per_sample = 16,
             wav_frames = [1, 2, 3, 4]\<rparr>"
  using stop_recording_roundtrip [of two_chunks]
  by (simp add: two_chunks_def first_chunk_def second_chunk_def default_recorder_def
      fits_L_def fits_H_def get_sample_size_def)

section \<open>OpenAI client\<close>

lemma b64encode_examples:
  "b64encode [1, 2, 3, 4] = ''AQIDBA=='' \<and> b64encode [104, 105] = ''aGk='' \<and> b64encode [] = []"
  by (simp add: b64_char_def Let_def)

text \<open>
  C4, as stated: every chunk fed before the session is configured is buffered and flushed
  once configuration completes. In \<open>early_feed\<close> the chunk \<open>01 02\<close> is fed before the
  event loop exists and the chunk \<open>03 04\<close> while the connection is still opening; after
  the configuration and one more chunk, the only messages sent are the configuration and
  the append message of that last chunk.
\<close>

theorem early_audio_dropped_counterexample:
  "realtime_websocket (mgr_client early_feed)
     = Some [Session_update, Input_audio_buffer_append ''aGk='']"
  by (simp add: early_feed_def run_scheduled_def send_audio_def session_configure_def
      session_connect_def create_loop_def start_session_def new_manager_def new_client_def
      send_audio_data_def send_session_config_def websocket_send_def realtime_connect_def
      b64_char_def Let_def)

text \<open>
  C4, amended: a call to \<^verbatim>\<open>send_audio\<close> made while the session is inactive or before
  its event loop exists does nothing, and a \<^verbatim>\<open>send_audio_data\<close> that runs while the
  client is not connected does nothing: the chunk is dropped, nothing is buffered. A
  \<^verbatim>\<open>send_audio_data\<close> that runs while connected sends one append message carrying the
  base64 text of the chunk.
\<close>

theorem send_audio_before_connected_dropped:
  "(mgr_loop m = None \<longrightarrow> send_audio m audio = m)
   \<and> (\<not> mgr_is_active m \<longrightarrow> send_audio m audio = m)
   \<and> (\<not> realtime_connected cl \<or> realtime_websocket cl = None \<longrightarrow>
        send_audio_data cl audio = cl)
   \<and> (realtime_connected cl \<and> realtime_websocket cl = Some sent \<longrightarrow>
        send_audio_data cl audio =
          cl\<lparr>realtime_websocket := Some (sent @ [Input_audio_buffer_append (b64encode audio)])\<rparr>)"
  by (simp add: send_audio_def send_audio_data_def websocket_send_def split: option.splits)

theorem send_audio_before_connected_dropped_witness:
  "mgr_loop (start_session new_manager) = None
   \<and> send_audio (start_session new_manager) [104, 105] = start_session new_manager
   \<and> \<not> realtime_connected new_client
   \<and> send_audio_data new_client [104, 105] = new_client
   \<and> realtime_connected (realtime_connect new_client)
   \<and> realtime_websocket (realtime_connect new_client) = Some []
   \<and> realtime_websocket (send_audio_data (realtime_connect new_client) [104, 105])
       = Some [Input_audio_buffer_append ''aGk='']"
  using send_audio_before_connected_dropped
      [of "start_session new_manager" "[104, 105]" new_client "[]"]
    send_audio_before_connected_dropped
      [of new_manager "[104, 105]" "realtime_connect new_client" "[]"]
  by (simp add: start_session_def new_manager_def new_client_def realtime_connect_def
      b64_char_def Let_def)

lemma api_params_model: "req_model (api_params audio model language) = ''whisper-1''"
  by (simp add: api_params_def)

text \<open>
  C9. The claim: every batch request carries the model identifier configured for batch
  mode. The controller passes \<open>model_transcribe\<close> down and \<^verbatim>\<open>transcribe_audio\<close>
  documents and logs it as the model used, but the request is built with the literal
  \<^verbatim>\<open>whisper-1\<close>. With the default configuration \<^verbatim>\<open>gpt-4o-mini\<close> the request the
  service receives names \<^verbatim>\<open>whisper-1\<close>; audio, response format and the omitted language
  hint are as claimed.
\<close>

theorem batch_request_ignores_configured_model:
  "model_transcribe idle_app = ''gpt-4o-mini''
   \<and> api_params [82, 73] (model_transcribe idle_app) (language_param idle_app)
       = \<lparr>req_model = ''whisper-1'', req_file = [82, 73], req_file_name = ''audio.wav'',
          req_response_format = ''text'', req_language = None\<rparr>"
  by (simp add: api_params_def idle_app_def language_param_def)

section \<open>Controller\<close>



lemma update_menu_state_fields:
  "is_recording (update_menu_state a) = is_recording a"
  "is_transcribing (update_menu_state a) = is_transcribing a"
  "pending_start_recording (update_menu_state a) = pending_start_recording a"
  "pending_stop_recording (update_menu_state a) = pending_stop_recording a"
  "pending_set_transcribing (update_menu_state a) = pending_set_transcribing a"
  "pending_clear_transcribing (update_menu_state a) = pending_clear_transcribing a"
  "app_recorder (update_menu_state a) = app_recorder a"
  "processing_threads (update_menu_state a) = processing_threads a"
  "inserted_text (update_menu_state a) = inserted_text a"
  "logged_interactions (update_menu_state a) = logged_interactions a"
  "notifications (update_menu_state a) = notifications a"
  "api_key (update_menu_state a) = api_key a"
  by (simp_all add: update_menu_state_def Let_def)


lemma start_recording_main_thread_fields:
  "is_transcribing (start_recording_main_thread a) = is_transcribing a"
  "pending_set_transcribing (start_recording_main_thread a) = pending_set_transcribing a"
  "pending_clear_transcribing (start_recording_main_thread a) = pending_clear_transcribing a"
  "processing_threads (start_recording_main_thread a) = processing_threads a"
  "inserted_text (start_recording_main_thread a) = inserted_text a"
  "logged_interactions (start_recording_main_thread a) = logged_interactions a"
  "notifications (start_recording_main_thread a) = notifications a"
  by (simp_all add: start_recording_main_thread_def app_logging_def Let_def
      update_menu_state_fields split: prod.splits option.splits)

lemma stop_recording_main_thread_fields:
  "is_transcribing (stop_recording_main_thread a) = is_transcribing a"
  "pending_set_transcribing (stop_recording_main_thread a) = pending_set_transcribing a"
  "pending_clear_transcribing (stop_recording_main_thread a) = pending_clear_transcribing a"
  "inserted_text (stop_recording_main_thread a) = inserted_text a"
  "logged_interactions (stop_recording_main_thread a) = logged_interactions a"
  "notifications (stop_recording_main_thread a) = notifications a"
  by (simp_all add: stop_recording_main_thread_def app_logging_def Let_def
      update_menu_state_fields split: prod.splits)

lemma tick_recording_fields:
  "is_transcribing (tick_recording a) = is_transcribing a"
  "pending_set_transcribing (tick_recording a) = pending_set_transcribing a"
  "pending_clear_transcribing (tick_recording a) = pending_clear_transcribing a"
  "inserted_text (tick_recording a) = inserted_text a"
  "logged_interactions (tick_recording a) = logged_interactions a"
  "notifications (tick_recording a) = notifications a"
  by (simp_all add: tick_recording_def start_recording_main_thread_fields
      stop_recording_main_thread_fields)












lemma stop_recording_state:
  "\<not> rec_is_recording (fst (stop_recording r))"
  "device_available (fst (stop_recording r)) = device_available r"
  by (simp_all add: stop_recording_def create_wav_data_def rec_logging_def Let_def
      split: prod.splits sum.splits)

lemma start_recording_ok:
  assumes "\<not> rec_is_recording r" and "device_available r"
  shows "snd (start_recording r) = None"
    and "rec_is_recording (fst (start_recording r))"
    and "audio_data (fst (start_recording r)) = []"
  using assms by (simp_all add: start_recording_def rec_logging_def Let_def)

lemma start_recording_main_thread_started:
  assumes "\<not> is_recording a" and "validate_api_key a"
    and "\<not> rec_is_recording (app_recorder a)" and "device_available (app_recorder a)"
  shows "is_recording (start_recording_main_thread a)"
    and "app_recorder (start_recording_main_thread a) = fst (start_recording (app_recorder a))"
    and "processing_threads (start_recording_main_thread a) = processing_threads a"
    and "app_log (start_recording_main_thread a) = app_log a"
  using assms start_recording_ok(1) [of "app_recorder a"]
  by (simp_all add: start_recording_main_thread_def Let_def case_prod_beta
      update_menu_state_def)

lemma tick_recording_starts:
  assumes "\<not> is_recording a" and "validate_api_key a"
    and "\<not> rec_is_recording (app_recorder a)" and "device_available (app_recorder a)"
  shows "is_recording (tick_recording (handle_hotkey a key))"
    and "app_recorder (tick_recording (handle_hotkey a key))
           = fst (start_recording (app_recorder a))"
    and "processing_threads (tick_recording (handle_hotkey a key)) = processing_threads a"
    and "app_log (tick_recording (handle_hotkey a key)) = app_log a"
proof -
  let ?b = "(handle_hotkey a key)\<lparr>pending_start_recording := False\<rparr>"
  have b: "\<not> is_recording ?b" "validate_api_key ?b"
    "\<not> rec_is_recording (app_recorder ?b)" "device_available (app_recorder ?b)"
    using assms by (simp_all add: handle_hotkey_def validate_api_key_def)
  have f: "app_recorder ?b = app_recorder a" "processing_threads ?b = processing_threads a"
    "app_log ?b = app_log a"
    using assms(1) by (simp_all add: handle_hotkey_def)
  have t: "tick_recording (handle_hotkey a key) = start_recording_main_thread ?b"
    using assms(1) by (simp add: tick_recording_def handle_hotkey_def)
  show "is_recording (tick_recording (handle_hotkey a key))"
    unfolding t by (rule start_recording_main_thread_started(1) [OF b])
  show "app_recorder (tick_recording (handle_hotkey a key))
           = fst (start_recording (app_recorder a))"
    unfolding t start_recording_main_thread_started(2) [OF b] f ..
  show "processing_threads (tick_recording (handle_hotkey a key)) = processing_threads a"
    unfolding t start_recording_main_thread_started(3) [OF b] f ..
  show "app_log (tick_recording (handle_hotkey a key)) = app_log a"
    unfolding t start_recording_main_thread_started(4) [OF b] f ..
qed

lemma tick_after_recording:
  "is_recording (process_pending_ui_operations a) = is_recording (tick_recording a)"
  "app_recorder (process_pending_ui_operations a) = app_recorder (tick_recording a)"
  "processing_threads (process_pending_ui_operations a) = processing_threads (tick_recording a)"
  unfolding process_pending_ui_operations_def Let_def
  by (simp_all add: app_logging_def update_menu_state_fields)

lemma tick_log_quiet:
  "\<not> pending_set_transcribing a \<Longrightarrow> \<not> pending_clear_transcribing a \<Longrightarrow>
   app_log (process_pending_ui_operations a) = app_log (tick_recording a)"
  unfolding process_pending_ui_operations_def Let_def
  by (simp add: tick_recording_fields)

lemma tick_keeps_transcribing:
  assumes "is_transcribing a" and "\<not> pending_clear_transcribing a"
  shows "is_transcribing (process_pending_ui_operations a)"
  using assms unfolding process_pending_ui_operations_def Let_def
  by (simp add: app_logging_def update_menu_state_fields tick_recording_fields)

lemma hotkey_while_transcribing:
  assumes "is_transcribing a" and "\<not> pending_clear_transcribing a"
    and "\<not> is_recording a" and "validate_api_key a"
    and "\<not> rec_is_recording (app_recorder a)" and "device_available (app_recorder a)"
  shows "is_recording (process_pending_ui_operations (handle_hotkey a key))
    \<and> rec_is_recording (app_recorder (process_pending_ui_operations (handle_hotkey a key)))
    \<and> audio_data (app_recorder (process_pending_ui_operations (handle_hotkey a key))) = []
    \<and> is_transcribing (process_pending_ui_operations (handle_hotkey a key))
    \<and> processing_threads (process_pending_ui_operations (handle_hotkey a key))
        = processing_threads a
    \<and> (\<not> pending_set_transcribing a \<longrightarrow>
         app_log (process_pending_ui_operations (handle_hotkey a key)) = app_log a)
    \<and> (\<forall>b. is_recording b \<longrightarrow> start_recording_main_thread b =
          app_logging (App_warning ''Already recording, ignoring start request'') b)"
proof -
  have t: "is_transcribing (process_pending_ui_operations (handle_hotkey a key))"
    using assms(1,2) by (intro tick_keeps_transcribing) (simp_all add: handle_hotkey_def)
  have w: "\<forall>b. is_recording b \<longrightarrow> start_recording_main_thread b =
          app_logging (App_warning ''Already recording, ignoring start request'') b"
    by (simp add: start_recording_main_thread_def)
  have l: "\<not> pending_set_transcribing a \<longrightarrow>
         app_log (process_pending_ui_operations (handle_hotkey a key)) = app_log a"
  proof
    assume "\<not> pending_set_transcribing a"
    then have "app_log (process_pending_ui_operations (handle_hotkey a key))
        = app_log (tick_recording (handle_hotkey a key))"
      using assms(2) by (intro tick_log_quiet) (simp_all add: handle_hotkey_def)
    then show "app_log (process_pending_ui_operations (handle_hotkey a key)) = app_log a"
      by (simp add: tick_recording_starts(4) [OF assms(3-6)])
  qed
  show ?thesis
    using t w l start_recording_ok(2,3) [OF assms(5,6)]
    by (simp add: tick_after_recording tick_recording_starts [OF assms(3-6)])
qed

lemma captured_recorder_state:
  "rec_is_recording captured_recorder" "device_available captured_recorder"
  "audio_data captured_recorder = [first_chunk, second_chunk]"
  by (simp_all add: captured_recorder_def started_recorder_def idle_recorder_def
      first_chunk_def second_chunk_def
      default_recorder_def start_recording_def audio_callback_def frombuffer_int16_def
      notify_volume_def rec_logging_def Let_def)

lemma transcribing_app_state:
  "is_transcribing transcribing_app" "\<not> pending_clear_transcribing transcribing_app"
  "\<not> is_recording transcribing_app" "validate_api_key transcribing_app"
  "\<not> rec_is_recording (app_recorder transcribing_app)"
  "device_available (app_recorder transcribing_app)"
  "\<not> pending_set_transcribing transcribing_app"
  "length (processing_threads transcribing_app) = 1"
  by (simp_all add: transcribing_app_def captured_app_def recording_app_def idle_app_def
      validate_api_key_def py_strip_def py_isspace_def stop_recording_state
      captured_recorder_state)

text \<open>The run that leads to \<open>transcribing_app\<close>, step by step.\<close>

lemma idle_app_state:
  "\<not> is_recording idle_app" "validate_api_key idle_app"
  "\<not> rec_is_recording (app_recorder idle_app)" "device_available (app_recorder idle_app)"
  by (simp_all add: idle_app_def idle_recorder_def default_recorder_def validate_api_key_def
      py_strip_def py_isspace_def)

lemma recording_app_reached: "process_pending_ui_operations (handle_hotkey idle_app key) = recording_app"
  unfolding process_pending_ui_operations_def tick_recording_def Let_def
  by (simp add: handle_hotkey_def idle_app_def start_recording_main_thread_def Let_def
      validate_api_key_def py_strip_def py_isspace_def start_recording_ok idle_recorder_def
      default_recorder_def case_prod_beta update_menu_state_def recording_app_def
      started_recorder_def start_recording_def rec_logging_def)

lemma transcribing_app_reached: "process_pending_ui_operations (process_audio_start
     (process_pending_ui_operations (handle_hotkey captured_app key))) = transcribing_app"
  unfolding process_pending_ui_operations_def tick_recording_def Let_def
  by (simp add: handle_hotkey_def captured_app_def recording_app_def idle_app_def
      stop_recording_main_thread_def Let_def process_audio_start_def
      validate_api_key_def py_strip_def py_isspace_def app_logging_def
      case_prod_beta update_menu_state_def transcribing_app_def)

text \<open>A second signal and tick hand a second audio buffer to a second processing thread.\<close>

lemma two_transcriptions_in_flight:
  "length (processing_threads (process_pending_ui_operations (handle_hotkey
     (process_pending_ui_operations (handle_hotkey transcribing_app ''right_cmd''))
     ''right_cmd''))) = 2"
proof -
  let ?a = "process_pending_ui_operations (handle_hotkey transcribing_app ''right_cmd'')"
  have r: "is_recording ?a" and t: "length (processing_threads ?a) = 1"
    using hotkey_while_transcribing [OF transcribing_app_state(1-6), of "''right_cmd''"]
      transcribing_app_state(8) by simp_all
  have "processing_threads (tick_recording (handle_hotkey ?a ''right_cmd''))
      = processing_threads ?a @ [snd (stop_recording (app_recorder ?a))]"
    using r by (simp add: tick_recording_def handle_hotkey_def stop_recording_main_thread_def
        Let_def case_prod_beta update_menu_state_fields)
  then show ?thesis using t by (simp add: tick_after_recording)
qed

text \<open>
  C1, as stated: an activation signal delivered while the controller is transcribing is a
  no-op with a warning and starts no recording, so that at most one transcription is in
  flight. In \<open>transcribing_app\<close> a transcription is in flight; after the signal and
  one tick of the main thread the controller and the recorder are recording, the
  transcription is still in flight, and the log has no new line; after one more signal and
  tick two transcriptions are in flight.
\<close>

theorem activation_while_transcribing_counterexample:
  "is_transcribing transcribing_app \<and> \<not> is_recording transcribing_app
   \<and> length (processing_threads transcribing_app) = 1
   \<and> is_recording (process_pending_ui_operations (handle_hotkey transcribing_app ''right_cmd''))
   \<and> rec_is_recording (app_recorder
        (process_pending_ui_operations (handle_hotkey transcribing_app ''right_cmd'')))
   \<and> is_transcribing (process_pending_ui_operations (handle_hotkey transcribing_app ''right_cmd''))
   \<and> app_log (process_pending_ui_operations (handle_hotkey transcribing_app ''right_cmd''))
       = app_log transcribing_app
   \<and> length (processing_threads (process_pending_ui_operations (handle_hotkey
        (process_pending_ui_operations (handle_hotkey transcribing_app ''right_cmd''))
        ''right_cmd''))) = 2"
  using hotkey_while_transcribing [OF transcribing_app_state(1-6), of "''right_cmd''"]
    transcribing_app_state(1,3,7,8) two_transcriptions_in_flight
  by simp

text \<open>
  C1, amended: an activation signal delivered while the controller is transcribing and
  not recording is not ignored. With the API key configured and the input device
  available, the next tick of the main thread starts a new recording with an empty
  buffer while the transcription stays in flight, and logs no warning. The only start
  request that is a no-op with a warning is one made while a recording is active.
\<close>

theorem activation_while_transcribing_starts_recording:
  assumes "is_transcribing a" and "\<not> pending_clear_transcribing a"
    and "\<not> is_recording a" and "validate_api_key a"
    and "\<not> rec_is_recording (app_recorder a)" and "device_available (app_recorder a)"
  shows "is_recording (process_pending_ui_operations (handle_hotkey a key))
    \<and> rec_is_recording (app_recorder (process_pending_ui_operations (handle_hotkey a key)))
    \<and> audio_data (app_recorder (process_pending_ui_operations (handle_hotkey a key))) = []
    \<and> is_transcribing (process_pending_ui_operations (handle_hotkey a key))
    \<and> processing_threads (process_pending_ui_operations (handle_hotkey a key))
        = processing_threads a
    \<and> (\<not> pending_set_transcribing a \<longrightarrow>
         app_log (process_pending_ui_operations (handle_hotkey a key)) = app_log a)
    \<and> (\<forall>b. is_recording b \<longrightarrow> start_recording_main_thread b =
          app_logging (App_warning ''Already recording, ignoring start request'') b)"
  using hotkey_while_transcribing [OF assms] .

theorem activation_while_transcribing_starts_recording_witness:
  "is_transcribing transcribing_app \<and> \<not> pending_clear_transcribing transcribing_app
   \<and> \<not> is_recording transcribing_app \<and> validate_api_key transcribing_app
   \<and> \<not> rec_is_recording (app_recorder transcribing_app)
   \<and> device_available (app_recorder transcribing_app)
   \<and> is_recording (process_pending_ui_operations (handle_hotkey transcribing_app ''right_cmd''))
   \<and> audio_data (app_recorder
        (process_pending_ui_operations (handle_hotkey transcribing_app ''right_cmd''))) = []
   \<and> processing_threads (process_pending_ui_operations (handle_hotkey transcribing_app ''right_cmd''))
       = processing_threads transcribing_app"
  using activation_while_transcribing_starts_recording
      [OF transcribing_app_state(1-6), of "''right_cmd''"] transcribing_app_state(1-6)
  by simp

end
